theory Spec2Isabelle
  imports Main
begin

section \<open>The evaluation driver \<^verbatim>\<open>run_chunked_eval.py\<close>\<close>

text \<open>
  The script is a single function \<^verbatim>\<open>main\<close> that validates its options and then calls
  into libraries (\<^verbatim>\<open>load_model\<close>, \<^verbatim>\<open>AutoTokenizer\<close>, the task classes, \<^verbatim>\<open>MTEB\<close>).
  The libraries are parameters of the model; what \<^verbatim>\<open>main\<close> itself does (the order
  of its checks, the values it passes on, which calls it makes and where it stops) is
  modelled as a function from the options to a result and the list of calls it made.
\<close>

subsection \<open>Python values, exceptions, keyword arguments\<close>

text \<open>
  Values that cross the boundary to a library. \<open>'o\<close> is the type of opaque objects
  (the model, the tokenizer, a task class, a task, an evaluation).
\<close>

datatype 'o pyval =
    PyNone
  | PyBool bool
  | PyInt int
  | PyStr string
  | PyObj 'o
  | PyList "'o pyval list"
  | PyDict "(string \<times> 'o pyval) list"

text \<open>Keyword arguments of a call, in the order they are written.\<close>

type_synonym 'o kwargs = "(string \<times> 'o pyval) list"

text \<open>
  Exceptions. \<^verbatim>\<open>main\<close> raises \<open>ValueError\<close> (line 85) and \<open>AssertionError\<close>
  (line 91) itself; a library may raise any exception, \<open>OtherError\<close> with the name of
  its class and its message for the classes \<^verbatim>\<open>main\<close> never names.
\<close>

datatype py_exn =
    ValueError string
  | AssertionError string
  | OtherError string string

subsection \<open>Module constants (lines 9 to 14)\<close>

definition DEFAULT_CHUNKING_STRATEGY :: string where
  "DEFAULT_CHUNKING_STRATEGY = ''fixed''"

definition DEFAULT_CHUNK_SIZE :: int where
  "DEFAULT_CHUNK_SIZE = 256"

definition DEFAULT_N_SENTENCES :: int where
  "DEFAULT_N_SENTENCES = 5"

definition BATCH_SIZE :: int where
  "BATCH_SIZE = 1"

definition DEFAULT_LONG_LATE_CHUNKING_OVERLAP_SIZE :: int where
  "DEFAULT_LONG_LATE_CHUNKING_OVERLAP_SIZE = 256"

definition DEFAULT_LONG_LATE_CHUNKING_EMBED_SIZE :: int where
  "DEFAULT_LONG_LATE_CHUNKING_EMBED_SIZE = 8192"

subsection \<open>The options of \<^verbatim>\<open>main\<close> (lines 17 to 81)\<close>

text \<open>
  The parameters of \<^verbatim>\<open>main\<close>, after the command line has been parsed.
  \<^verbatim>\<open>--chunking-model\<close> and \<^verbatim>\<open>--truncate-max-length\<close> have the default \<^verbatim>\<open>None\<close>.
\<close>

record config =
  model_name :: string
  strategy :: string
  task_name :: string
  eval_split :: string
  chunking_model :: "string option"
  truncate_max_length :: "int option"
  chunk_size :: int
  n_sentences :: int
  long_late_chunking_embed_size :: int
  long_late_chunking_overlap_size :: int

text \<open>
  What the command line gives: for each option its value when the flag is present,
  \<open>None\<close> when it is absent. No decorator sets \<^verbatim>\<open>required=True\<close>, so an absent flag
  is never an error and takes the decorator's \<^verbatim>\<open>default\<close>.
\<close>

record cli_flags =
  flag_model_name :: "string option"
  flag_strategy :: "string option"
  flag_task_name :: "string option"
  flag_eval_split :: "string option"
  flag_chunking_model :: "string option"
  flag_truncate_max_length :: "int option"
  flag_chunk_size :: "int option"
  flag_n_sentences :: "int option"
  flag_long_late_chunking_embed_size :: "int option"
  flag_long_late_chunking_overlap_size :: "int option"

definition with_default :: "'a \<Rightarrow> 'a option \<Rightarrow> 'a" where
  "with_default d given = (case given of None \<Rightarrow> d | Some v \<Rightarrow> v)"

definition click_options :: "cli_flags \<Rightarrow> config" where
  "click_options fl =
     \<lparr> model_name = with_default ''jinaai/jina-embeddings-v2-small-en'' (flag_model_name fl),
       strategy = with_default DEFAULT_CHUNKING_STRATEGY (flag_strategy fl),
       task_name = with_default ''SciFactChunked'' (flag_task_name fl),
       eval_split = with_default ''test'' (flag_eval_split fl),
       chunking_model = flag_chunking_model fl,
       truncate_max_length = flag_truncate_max_length fl,
       chunk_size = with_default DEFAULT_CHUNK_SIZE (flag_chunk_size fl),
       n_sentences = with_default DEFAULT_N_SENTENCES (flag_n_sentences fl),
       long_late_chunking_embed_size =
         with_default DEFAULT_LONG_LATE_CHUNKING_EMBED_SIZE (flag_long_late_chunking_embed_size fl),
       long_late_chunking_overlap_size =
         with_default DEFAULT_LONG_LATE_CHUNKING_OVERLAP_SIZE (flag_long_late_chunking_overlap_size fl) \<rparr>"

text \<open>The command line with no flag at all.\<close>

definition no_flags :: cli_flags where
  "no_flags =
     \<lparr> flag_model_name = None, flag_strategy = None, flag_task_name = None,
       flag_eval_split = None, flag_chunking_model = None, flag_truncate_max_length = None,
       flag_chunk_size = None, flag_n_sentences = None,
       flag_long_late_chunking_embed_size = None,
       flag_long_late_chunking_overlap_size = None \<rparr>"

subsection \<open>The libraries\<close>

text \<open>
  Everything \<^verbatim>\<open>main\<close> calls. Each call returns a value or raises.
  \<^item> \<open>globals\<close>: the module's namespace, read by \<^verbatim>\<open>globals()[task_name]\<close>. It holds
    the names that \<^verbatim>\<open>from chunked_pooling.chunked_eval_tasks import *\<close> brings in (that
    module is not part of the sources at hand) beside the module's own names.
  \<^item> \<open>load_model\<close>: \<^verbatim>\<open>load_model(model_name)\<close>, a pair of the model and
    \<^verbatim>\<open>has_instructions\<close>.
  \<^item> \<open>from_pretrained\<close>: \<^verbatim>\<open>AutoTokenizer.from_pretrained(model_name, **kwargs)\<close>.
  \<^item> \<open>cuda_is_available\<close>: \<^verbatim>\<open>torch.cuda.is_available()\<close>.
  \<^item> \<open>model_cuda\<close>: \<^verbatim>\<open>model.cuda()\<close>; \<open>model_eval\<close>: \<^verbatim>\<open>model.eval()\<close>.
  \<^item> \<open>call_task_cls\<close>: \<^verbatim>\<open>task_cls(**kwargs)\<close>, for the value found in the namespace.
  \<^item> \<open>MTEB\<close>: \<^verbatim>\<open>MTEB(**kwargs)\<close>.
  \<^item> \<open>evaluation_run\<close>: \<^verbatim>\<open>evaluation.run(model, **kwargs)\<close>.
\<close>

record 'o env =
  globals :: "string \<rightharpoonup> 'o pyval"
  load_model :: "string \<Rightarrow> py_exn + ('o pyval \<times> 'o pyval)"
  from_pretrained :: "string \<Rightarrow> 'o kwargs \<Rightarrow> py_exn + 'o pyval"
  cuda_is_available :: bool
  model_cuda :: "'o pyval \<Rightarrow> py_exn + 'o pyval"
  model_eval :: "'o pyval \<Rightarrow> py_exn + unit"
  call_task_cls :: "'o pyval \<Rightarrow> 'o kwargs \<Rightarrow> py_exn + 'o pyval"
  MTEB :: "'o kwargs \<Rightarrow> py_exn + 'o pyval"
  evaluation_run :: "'o pyval \<Rightarrow> 'o pyval \<Rightarrow> 'o kwargs \<Rightarrow> py_exn + unit"

text \<open>What \<^verbatim>\<open>main\<close> does that can be seen from outside, in the order it does it.\<close>

datatype 'o event =
    Print string
  | LoadModel string
  | LoadTokenizer string "'o kwargs"
  | ModelCuda "'o pyval"
  | ModelEval "'o pyval"
  | TaskInit "'o pyval" "'o kwargs"
  | MTEBInit "'o kwargs"
  | EvalRun "'o pyval" "'o pyval" "'o kwargs"

subsection \<open>Sequencing\<close>

text \<open>
  A piece of the script: its result (\<open>Inl\<close> the exception it raised) and the events
  up to there. \<open>bind_prog\<close> is Python's statement sequencing: an exception ends the run,
  and what was done before it stays done.
\<close>

type_synonym ('o, 'a) prog = "(py_exn + 'a) \<times> 'o event list"

definition return_prog :: "'a \<Rightarrow> ('o, 'a) prog" where
  "return_prog v = (Inr v, [])"

definition raise_prog :: "py_exn \<Rightarrow> ('o, 'a) prog" where
  "raise_prog e = (Inl e, [])"

definition call_prog :: "'o event \<Rightarrow> py_exn + 'a \<Rightarrow> ('o, 'a) prog" where
  "call_prog ev r = (r, [ev])"

definition bind_prog :: "('o, 'a) prog \<Rightarrow> ('a \<Rightarrow> ('o, 'b) prog) \<Rightarrow> ('o, 'b) prog" where
  "bind_prog m f =
     (case m of
        (Inl e, tr) \<Rightarrow> (Inl e, tr)
      | (Inr v, tr) \<Rightarrow> (case f v of (r, tr') \<Rightarrow> (r, tr @ tr')))"

subsection \<open>\<^verbatim>\<open>main\<close> (lines 82 to 164)\<close>

definition unknown_task_message :: "string \<Rightarrow> string" where
  "unknown_task_message name = ''Unknown task name: '' @ name"

definition disabled_notice :: string where
  "disabled_notice =
     ''Long Late Chunking algorithm will be disabled because truncate max length is defined, hence documents are truncated.''"

definition assert_message :: string where
  "assert_message = ''Define either long late chunking or truncation to handle documents.''"

text \<open>An optional integer as the Python value passed on.\<close>

definition py_opt_int :: "int option \<Rightarrow> 'o pyval" where
  "py_opt_int v = (case v of None \<Rightarrow> PyNone | Some n \<Rightarrow> PyInt n)"

text \<open>Lines 82 to 85: the lookup of the task name, a \<^verbatim>\<open>KeyError\<close> turned into a \<^verbatim>\<open>ValueError\<close>.\<close>

definition lookup_task :: "'o env \<Rightarrow> config \<Rightarrow> ('o, 'o pyval) prog" where
  "lookup_task env cfg =
     (case globals env (task_name cfg) of
        Some task_cls \<Rightarrow> return_prog task_cls
      | None \<Rightarrow> raise_prog (ValueError (unknown_task_message (task_name cfg))))"

text \<open>
  Lines 87 to 91: truncation switches the long late chunking off; then one of the two
  must be there. The value is the window size that the rest of \<^verbatim>\<open>main\<close> uses.
\<close>

definition check_window :: "config \<Rightarrow> ('o, int) prog" where
  "check_window cfg =
     bind_prog
       (if truncate_max_length cfg \<noteq> None \<and> long_late_chunking_embed_size cfg > 0
        then bind_prog (call_prog (Print disabled_notice) (Inr ())) (\<lambda>_. return_prog 0)
        else return_prog (long_late_chunking_embed_size cfg))
       (\<lambda>embed_size.
          if embed_size > 0 \<or> truncate_max_length cfg \<noteq> None
          then return_prog embed_size
          else raise_prog (AssertionError assert_message))"

text \<open>Lines 97 to 103.\<close>

definition chunking_args :: "config \<Rightarrow> 'o pyval \<Rightarrow> 'o kwargs" where
  "chunking_args cfg has_instructions =
     [(''chunk_size'', PyInt (chunk_size cfg)),
      (''n_sentences'', PyInt (n_sentences cfg)),
      (''chunking_strategy'', PyStr (strategy cfg)),
      (''model_has_instructions'', has_instructions),
      (''embedding_model_name'',
         PyStr (case chunking_model cfg of
                  Some m \<Rightarrow> if m \<noteq> [] then m else model_name cfg
                | None \<Rightarrow> model_name cfg))]"

text \<open>The keyword arguments of the two \<^verbatim>\<open>evaluation.run\<close> calls (lines 130 to 137, 157 to 164).\<close>

definition run_kwargs :: "config \<Rightarrow> string \<Rightarrow> 'o kwargs" where
  "run_kwargs cfg folder =
     [(''output_folder'', PyStr folder),
      (''eval_splits'', PyList [PyStr (eval_split cfg)]),
      (''overwrite_results'', PyBool True),
      (''batch_size'', PyInt BATCH_SIZE),
      (''encode_kwargs'', PyDict [(''batch_size'', PyInt BATCH_SIZE)])]"

text \<open>Lines 111 to 121 and 140 to 148: the keyword arguments of the two task constructions.\<close>

definition chunked_task_kwargs :: "config \<Rightarrow> 'o pyval \<Rightarrow> int \<Rightarrow> 'o kwargs \<Rightarrow> 'o kwargs" where
  "chunked_task_kwargs cfg tokenizer embed_size args =
     [(''chunked_pooling_enabled'', PyBool True),
      (''tokenizer'', tokenizer),
      (''prune_size'', PyNone),
      (''truncate_max_length'', py_opt_int (truncate_max_length cfg)),
      (''long_late_chunking_embed_size'', PyInt embed_size),
      (''long_late_chunking_overlap_size'', PyInt (long_late_chunking_overlap_size cfg))]
     @ args"

definition normal_task_kwargs :: "config \<Rightarrow> 'o pyval \<Rightarrow> 'o kwargs \<Rightarrow> 'o kwargs" where
  "normal_task_kwargs cfg tokenizer args =
     [(''chunked_pooling_enabled'', PyBool False),
      (''tokenizer'', tokenizer),
      (''prune_size'', PyNone),
      (''truncate_max_length'', py_opt_int (truncate_max_length cfg))]
     @ args"

text \<open>Lines 123 to 129 and 150 to 156: the keyword arguments of the two \<^verbatim>\<open>MTEB\<close> constructions.\<close>

definition mteb_kwargs :: "bool \<Rightarrow> 'o pyval \<Rightarrow> 'o pyval \<Rightarrow> 'o kwargs \<Rightarrow> 'o kwargs" where
  "mteb_kwargs enabled task tokenizer args =
     [(''tasks'', PyList [task]),
      (''chunked_pooling_enabled'', PyBool enabled),
      (''tokenizer'', tokenizer),
      (''prune_size'', PyNone)]
     @ args"

text \<open>
  Lines 93 to 108: the model and the tokenizer are loaded, the model is moved to the GPU
  when there is one and put in evaluation mode. The value is the model, the
  \<^verbatim>\<open>has_instructions\<close> that came with it, and the tokenizer.
\<close>

definition prepare :: "'o env \<Rightarrow> config \<Rightarrow> ('o, 'o pyval \<times> 'o pyval \<times> 'o pyval) prog" where
  "prepare env cfg =
     bind_prog (call_prog (LoadModel (model_name cfg)) (load_model env (model_name cfg)))
       (\<lambda>(model0, has_instructions).
     bind_prog (call_prog (LoadTokenizer (model_name cfg) [(''trust_remote_code'', PyBool True)])
                  (from_pretrained env (model_name cfg) [(''trust_remote_code'', PyBool True)]))
       (\<lambda>tokenizer.
     bind_prog (if cuda_is_available env
                then call_prog (ModelCuda model0) (model_cuda env model0)
                else return_prog model0)
       (\<lambda>model.
     bind_prog (call_prog (ModelEval model) (model_eval env model))
       (\<lambda>_.
     return_prog (model, has_instructions, tokenizer)))))"

text \<open>Lines 110 to 137: the evaluation with late chunking.\<close>

definition run_chunked ::
  "'o env \<Rightarrow> config \<Rightarrow> 'o pyval \<Rightarrow> int \<Rightarrow> 'o pyval \<Rightarrow> 'o pyval \<Rightarrow> 'o kwargs \<Rightarrow> ('o, unit) prog" where
  "run_chunked env cfg task_cls embed_size model tokenizer args =
     bind_prog (call_prog
                  (TaskInit task_cls (chunked_task_kwargs cfg tokenizer embed_size args))
                  (call_task_cls env task_cls (chunked_task_kwargs cfg tokenizer embed_size args)))
       (\<lambda>task.
     bind_prog (call_prog
                  (MTEBInit (mteb_kwargs True task tokenizer args))
                  (MTEB env (mteb_kwargs True task tokenizer args)))
       (\<lambda>evaluation.
     call_prog
       (EvalRun evaluation model (run_kwargs cfg ''results-chunked-pooling''))
       (evaluation_run env evaluation model (run_kwargs cfg ''results-chunked-pooling''))))"

text \<open>Lines 139 to 164: the evaluation without late chunking.\<close>

definition run_normal ::
  "'o env \<Rightarrow> config \<Rightarrow> 'o pyval \<Rightarrow> 'o pyval \<Rightarrow> 'o pyval \<Rightarrow> 'o kwargs \<Rightarrow> ('o, unit) prog" where
  "run_normal env cfg task_cls model tokenizer args =
     bind_prog (call_prog
                  (TaskInit task_cls (normal_task_kwargs cfg tokenizer args))
                  (call_task_cls env task_cls (normal_task_kwargs cfg tokenizer args)))
       (\<lambda>task.
     bind_prog (call_prog
                  (MTEBInit (mteb_kwargs False task tokenizer args))
                  (MTEB env (mteb_kwargs False task tokenizer args)))
       (\<lambda>evaluation.
     call_prog
       (EvalRun evaluation model (run_kwargs cfg ''results-normal-pooling''))
       (evaluation_run env evaluation model (run_kwargs cfg ''results-normal-pooling''))))"

text \<open>Lines 93 to 164: everything after the checks.\<close>

definition evaluate :: "'o env \<Rightarrow> config \<Rightarrow> 'o pyval \<Rightarrow> int \<Rightarrow> ('o, unit) prog" where
  "evaluate env cfg task_cls embed_size =
     bind_prog (prepare env cfg) (\<lambda>(model, has_instructions, tokenizer).
     bind_prog (run_chunked env cfg task_cls embed_size model tokenizer
                  (chunking_args cfg has_instructions)) (\<lambda>_.
     run_normal env cfg task_cls model tokenizer (chunking_args cfg has_instructions)))"

definition main :: "'o env \<Rightarrow> config \<Rightarrow> ('o, unit) prog" where
  "main env cfg =
     bind_prog (lookup_task env cfg) (\<lambda>task_cls.
     bind_prog (check_window cfg) (\<lambda>embed_size.
     evaluate env cfg task_cls embed_size))"

subsection \<open>Reading a run\<close>

text \<open>The calls of one kind among the events of a run, in order.\<close>

fun model_loads :: "'o event list \<Rightarrow> string list" where
  "model_loads [] = []"
| "model_loads (LoadModel name # tr) = name # model_loads tr"
| "model_loads (_ # tr) = model_loads tr"

fun task_inits :: "'o event list \<Rightarrow> ('o pyval \<times> 'o kwargs) list" where
  "task_inits [] = []"
| "task_inits (TaskInit task_cls kw # tr) = (task_cls, kw) # task_inits tr"
| "task_inits (_ # tr) = task_inits tr"

fun mteb_inits :: "'o event list \<Rightarrow> 'o kwargs list" where
  "mteb_inits [] = []"
| "mteb_inits (MTEBInit kw # tr) = kw # mteb_inits tr"
| "mteb_inits (_ # tr) = mteb_inits tr"

text \<open>An evaluation run: the evaluation object, the model and the keyword arguments.\<close>

fun eval_runs :: "'o event list \<Rightarrow> ('o pyval \<times> 'o pyval \<times> 'o kwargs) list" where
  "eval_runs [] = []"
| "eval_runs (EvalRun evaluation model kw # tr) = (evaluation, model, kw) # eval_runs tr"
| "eval_runs (_ # tr) = eval_runs tr"

fun printed :: "'o event list \<Rightarrow> string list" where
  "printed [] = []"
| "printed (Print s # tr) = s # printed tr"
| "printed (_ # tr) = printed tr"

text \<open>The keywords on which two calls differ: passed to one only, or with two values.\<close>

definition diff_keys :: "'o kwargs \<Rightarrow> 'o kwargs \<Rightarrow> string list" where
  "diff_keys kw1 kw2 =
     filter (\<lambda>k. map_of kw1 k \<noteq> map_of kw2 k) (remdups (map fst kw1 @ map fst kw2))"

definition task_init_diff :: "'o event list \<Rightarrow> string list" where
  "task_init_diff tr =
     (case task_inits tr of
        [(c1, kw1), (c2, kw2)] \<Rightarrow> diff_keys kw1 kw2
      | _ \<Rightarrow> [])"

definition mteb_init_diff :: "'o event list \<Rightarrow> string list" where
  "mteb_init_diff tr =
     (case mteb_inits tr of
        [kw1, kw2] \<Rightarrow> diff_keys kw1 kw2
      | _ \<Rightarrow> [])"

definition eval_run_diff :: "'o event list \<Rightarrow> string list" where
  "eval_run_diff tr =
     (case eval_runs tr of
        [(e1, m1, kw1), (e2, m2, kw2)] \<Rightarrow> diff_keys kw1 kw2
      | _ \<Rightarrow> [])"



subsection \<open>Libraries and options to run the script on\<close>

text \<open>
  Libraries in which every call returns: the namespace knows the one task class
  \<^verbatim>\<open>SciFactChunked\<close>, there is no GPU, and objects are numbered.
\<close>

definition env_ok :: "nat env" where
  "env_ok =
     \<lparr> globals = [''SciFactChunked'' \<mapsto> PyObj 0],
       load_model = (\<lambda>name. Inr (PyObj 1, PyBool False)),
       from_pretrained = (\<lambda>name kw. Inr (PyObj 2)),
       cuda_is_available = False,
       model_cuda = (\<lambda>model. Inr model),
       model_eval = (\<lambda>model. Inr ()),
       call_task_cls = (\<lambda>task_cls kw. Inr (PyObj 3)),
       MTEB = (\<lambda>kw. Inr (PyObj 4)),
       evaluation_run = (\<lambda>evaluation model kw. Inr ()) \<rparr>"

text \<open>The same libraries, but the model fails to load.\<close>

definition env_no_model :: "nat env" where
  "env_no_model =
     env_ok \<lparr> load_model := (\<lambda>name. Inl (OtherError ''OSError'' ''no such model'')) \<rparr>"

text \<open>The same libraries, but the second evaluation run fails.\<close>

definition env_run2_fails :: "nat env" where
  "env_run2_fails =
     env_ok \<lparr> evaluation_run := (\<lambda>evaluation model kw.
        if map_of kw ''output_folder'' = Some (PyStr ''results-normal-pooling'')
        then Inl (OtherError ''RuntimeError'' ''out of memory'') else Inr ()) \<rparr>"

text \<open>The options of a command line without flags, and variations of them.\<close>

definition default_config :: config where
  "default_config = click_options no_flags"

definition truncating_config :: config where
  "truncating_config = default_config \<lparr> truncate_max_length := Some 512 \<rparr>"

definition no_window_config :: config where
  "no_window_config = default_config \<lparr> long_late_chunking_embed_size := 0 \<rparr>"

definition unknown_task_config :: config where
  "unknown_task_config = default_config \<lparr> task_name := ''NoSuchTask'' \<rparr>"

text \<open>An unknown task name together with other options.\<close>

definition unknown_task_truncating_config :: config where
  "unknown_task_truncating_config = truncating_config \<lparr> task_name := ''NoSuchTask'' \<rparr>"

definition unknown_task_no_window_config :: config where
  "unknown_task_no_window_config = no_window_config \<lparr> task_name := ''NoSuchTask'' \<rparr>"

text \<open>Truncation with a negative window size.\<close>

definition negative_window_config :: config where
  "negative_window_config = truncating_config \<lparr> long_late_chunking_embed_size := - 1 \<rparr>"

text \<open>A model of its own for the chunking, and an empty name for it.\<close>

definition chunking_model_config :: config where
  "chunking_model_config = default_config \<lparr> chunking_model := Some ''other/model'' \<rparr>"

definition empty_chunking_model_config :: config where
  "empty_chunking_model_config = default_config \<lparr> chunking_model := Some [] \<rparr>"

subsection \<open>Where a run stops\<close>


section \<open>Properties\<close>

subsection \<open>Sequencing and projections\<close>

lemmas prog_defs = bind_prog_def return_prog_def raise_prog_def call_prog_def

lemmas kw_defs = chunked_task_kwargs_def normal_task_kwargs_def mteb_kwargs_def run_kwargs_def chunking_args_def

lemma fst_bind: "fst (bind_prog m f) = (case fst m of Inl e \<Rightarrow> Inl e | Inr v \<Rightarrow> fst (f v))"
  by (simp add: bind_prog_def split: prod.splits sum.splits)

lemma snd_bind: "snd (bind_prog m f) = (case fst m of Inl e \<Rightarrow> snd m | Inr v \<Rightarrow> snd m @ snd (f v))"
  by (simp add: bind_prog_def split: prod.splits sum.splits)

lemma model_loads_append: "model_loads (a @ b) = model_loads a @ model_loads b"
  by (induction a rule: model_loads.induct) simp_all

lemma task_inits_append: "task_inits (a @ b) = task_inits a @ task_inits b"
  by (induction a rule: task_inits.induct) simp_all

lemma mteb_inits_append: "mteb_inits (a @ b) = mteb_inits a @ mteb_inits b"
  by (induction a rule: mteb_inits.induct) simp_all

lemma eval_runs_append: "eval_runs (a @ b) = eval_runs a @ eval_runs b"
  by (induction a rule: eval_runs.induct) simp_all

lemma printed_append: "printed (a @ b) = printed a @ printed b"
  by (induction a rule: printed.induct) simp_all

lemmas proj_append = model_loads_append task_inits_append mteb_inits_append eval_runs_append printed_append

lemma check_window_cases:
  "check_window cfg =
     (if truncate_max_length cfg \<noteq> None \<and> long_late_chunking_embed_size cfg > 0
      then (Inr 0, [Print disabled_notice])
      else if long_late_chunking_embed_size cfg > 0 \<or> truncate_max_length cfg \<noteq> None
      then (Inr (long_late_chunking_embed_size cfg), [])
      else (Inl (AssertionError assert_message), []))"
  by (simp add: check_window_def prog_defs)

lemma main_unknown:
  "globals env (task_name cfg) = None \<Longrightarrow>
   main env cfg = (Inl (ValueError (unknown_task_message (task_name cfg))), [])"
  by (simp add: main_def lookup_task_def prog_defs)

lemma main_known:
  "globals env (task_name cfg) = Some task_cls \<Longrightarrow>
   main env cfg = bind_prog (check_window cfg) (evaluate env cfg task_cls)"
  by (simp add: main_def lookup_task_def prog_defs)

subsection \<open>The loading phase\<close>

lemma prepare_loads: "model_loads (snd (prepare env cfg)) = [model_name cfg]"
  by (simp add: prepare_def prog_defs split: sum.splits prod.splits)

lemma prepare_others:
  "task_inits (snd (prepare env cfg)) = []"
  "mteb_inits (snd (prepare env cfg)) = []"
  "eval_runs (snd (prepare env cfg)) = []"
  "printed (snd (prepare env cfg)) = []"
  by (simp_all add: prepare_def prog_defs split: sum.splits prod.splits)

lemma prepare_model:
  "fst (prepare env cfg) = Inr (m, hi, tok) \<Longrightarrow>
   \<exists>m0. load_model env (model_name cfg) = Inr (m0, hi) \<and>
        (if cuda_is_available env then model_cuda env m0 = Inr m else m = m0)"
  by (auto simp: prepare_def prog_defs split: sum.splits prod.splits if_splits)

subsection \<open>The evaluation with late chunking\<close>

lemma run_chunked_proj:
  "model_loads (snd (run_chunked env cfg c w m tok args)) = []"
  "printed (snd (run_chunked env cfg c w m tok args)) = []"
  "task_inits (snd (run_chunked env cfg c w m tok args)) = [(c, chunked_task_kwargs cfg tok w args)]"
  by (simp_all add: run_chunked_def prog_defs split: sum.splits prod.splits)

lemma run_chunked_runs:
  "r \<in> set (eval_runs (snd (run_chunked env cfg c w m tok args))) \<Longrightarrow>
   fst (snd r) = m \<and> snd (snd r) = run_kwargs cfg ''results-chunked-pooling''"
  by (auto simp: run_chunked_def prog_defs split: sum.splits prod.splits)

lemma run_chunked_mteb:
  "kw \<in> set (mteb_inits (snd (run_chunked env cfg c w m tok args))) \<Longrightarrow>
   \<exists>t. kw = mteb_kwargs True t tok args"
  by (auto simp: run_chunked_def prog_defs split: sum.splits prod.splits)

lemma run_chunked_success:
  "fst (run_chunked env cfg c w m tok args) = Inr u \<Longrightarrow>
   \<exists>t e. mteb_inits (snd (run_chunked env cfg c w m tok args)) = [mteb_kwargs True t tok args] \<and>
         eval_runs (snd (run_chunked env cfg c w m tok args)) =
           [(e, m, run_kwargs cfg ''results-chunked-pooling'')]"
  by (auto simp: run_chunked_def prog_defs split: sum.splits prod.splits)

subsection \<open>The evaluation without late chunking\<close>

lemma run_normal_proj:
  "model_loads (snd (run_normal env cfg c m tok args)) = []"
  "printed (snd (run_normal env cfg c m tok args)) = []"
  "task_inits (snd (run_normal env cfg c m tok args)) = [(c, normal_task_kwargs cfg tok args)]"
  by (simp_all add: run_normal_def prog_defs split: sum.splits prod.splits)

lemma run_normal_runs:
  "r \<in> set (eval_runs (snd (run_normal env cfg c m tok args))) \<Longrightarrow>
   fst (snd r) = m \<and> snd (snd r) = run_kwargs cfg ''results-normal-pooling''"
  by (auto simp: run_normal_def prog_defs split: sum.splits prod.splits)

lemma run_normal_mteb:
  "kw \<in> set (mteb_inits (snd (run_normal env cfg c m tok args))) \<Longrightarrow>
   \<exists>t. kw = mteb_kwargs False t tok args"
  by (auto simp: run_normal_def prog_defs split: sum.splits prod.splits)

lemma run_normal_success:
  "fst (run_normal env cfg c m tok args) = Inr u \<Longrightarrow>
   \<exists>t e. mteb_inits (snd (run_normal env cfg c m tok args)) = [mteb_kwargs False t tok args] \<and>
         eval_runs (snd (run_normal env cfg c m tok args)) =
           [(e, m, run_kwargs cfg ''results-normal-pooling'')]"
  by (auto simp: run_normal_def prog_defs split: sum.splits prod.splits)

subsection \<open>Both evaluations\<close>

lemma evaluate_fst:
  "fst (evaluate env cfg c w) =
     (case fst (prepare env cfg) of
        Inl e \<Rightarrow> Inl e
      | Inr (m, hi, tok) \<Rightarrow>
          (case fst (run_chunked env cfg c w m tok (chunking_args cfg hi)) of
             Inl e \<Rightarrow> Inl e
           | Inr u \<Rightarrow> fst (run_normal env cfg c m tok (chunking_args cfg hi))))"
  by (simp add: evaluate_def fst_bind split: sum.splits prod.splits)

lemma evaluate_snd:
  "snd (evaluate env cfg c w) =
     (case fst (prepare env cfg) of
        Inl e \<Rightarrow> snd (prepare env cfg)
      | Inr (m, hi, tok) \<Rightarrow>
          snd (prepare env cfg) @
          (case fst (run_chunked env cfg c w m tok (chunking_args cfg hi)) of
             Inl e \<Rightarrow> snd (run_chunked env cfg c w m tok (chunking_args cfg hi))
           | Inr u \<Rightarrow> snd (run_chunked env cfg c w m tok (chunking_args cfg hi)) @
                      snd (run_normal env cfg c m tok (chunking_args cfg hi))))"
  by (simp add: evaluate_def snd_bind split: sum.splits prod.splits)

lemma evaluate_loads: "model_loads (snd (evaluate env cfg c w)) = [model_name cfg]"
  by (simp add: evaluate_snd proj_append prepare_loads run_chunked_proj run_normal_proj
           split: sum.splits prod.splits)

lemma evaluate_printed: "printed (snd (evaluate env cfg c w)) = []"
  by (simp add: evaluate_snd proj_append prepare_others run_chunked_proj run_normal_proj
           split: sum.splits prod.splits)

lemma evaluate_task_inits:
  "x \<in> set (task_inits (snd (evaluate env cfg c w))) \<Longrightarrow>
   \<exists>tok hi. x = (c, chunked_task_kwargs cfg tok w (chunking_args cfg hi)) \<or>
            x = (c, normal_task_kwargs cfg tok (chunking_args cfg hi))"
  by (auto simp: evaluate_snd proj_append prepare_others run_chunked_proj run_normal_proj
           split: sum.splits prod.splits)

lemma evaluate_runs:
  "r \<in> set (eval_runs (snd (evaluate env cfg c w))) \<Longrightarrow>
   \<exists>m hi tok. fst (prepare env cfg) = Inr (m, hi, tok) \<and> fst (snd r) = m \<and>
     (snd (snd r) = run_kwargs cfg ''results-chunked-pooling'' \<or>
      snd (snd r) = run_kwargs cfg ''results-normal-pooling'')"
  by (auto simp: evaluate_snd proj_append prepare_others
           dest: run_chunked_runs run_normal_runs split: sum.splits prod.splits)

lemma evaluate_mteb:
  "kw \<in> set (mteb_inits (snd (evaluate env cfg c w))) \<Longrightarrow>
   \<exists>b t tok hi. kw = mteb_kwargs b t tok (chunking_args cfg hi)"
  by (auto simp: evaluate_snd proj_append prepare_others
           dest!: run_chunked_mteb run_normal_mteb split: sum.splits prod.splits)

lemma evaluate_success:
  assumes "fst (evaluate env cfg c w) = Inr u"
  shows "\<exists>m hi tok t1 e1 t2 e2.
     fst (prepare env cfg) = Inr (m, hi, tok) \<and>
     task_inits (snd (evaluate env cfg c w)) =
       [(c, chunked_task_kwargs cfg tok w (chunking_args cfg hi)),
        (c, normal_task_kwargs cfg tok (chunking_args cfg hi))] \<and>
     mteb_inits (snd (evaluate env cfg c w)) =
       [mteb_kwargs True t1 tok (chunking_args cfg hi),
        mteb_kwargs False t2 tok (chunking_args cfg hi)] \<and>
     eval_runs (snd (evaluate env cfg c w)) =
       [(e1, m, run_kwargs cfg ''results-chunked-pooling''),
        (e2, m, run_kwargs cfg ''results-normal-pooling'')]"
proof -
  from assms obtain m hi tok where
    p: "fst (prepare env cfg) = Inr (m, hi, tok)"
    and c: "fst (run_chunked env cfg c w m tok (chunking_args cfg hi)) = Inr ()"
    and n: "fst (run_normal env cfg c m tok (chunking_args cfg hi)) = Inr ()"
    by (auto simp: evaluate_fst split: sum.splits prod.splits)
  from run_chunked_success [OF c] obtain t1 e1 where
    c': "mteb_inits (snd (run_chunked env cfg c w m tok (chunking_args cfg hi))) =
           [mteb_kwargs True t1 tok (chunking_args cfg hi)]"
        "eval_runs (snd (run_chunked env cfg c w m tok (chunking_args cfg hi))) =
           [(e1, m, run_kwargs cfg ''results-chunked-pooling'')]"
    by blast
  from run_normal_success [OF n] obtain t2 e2 where
    n': "mteb_inits (snd (run_normal env cfg c m tok (chunking_args cfg hi))) =
           [mteb_kwargs False t2 tok (chunking_args cfg hi)]"
        "eval_runs (snd (run_normal env cfg c m tok (chunking_args cfg hi))) =
           [(e2, m, run_kwargs cfg ''results-normal-pooling'')]"
    by blast
  have "task_inits (snd (evaluate env cfg c w)) =
       [(c, chunked_task_kwargs cfg tok w (chunking_args cfg hi)),
        (c, normal_task_kwargs cfg tok (chunking_args cfg hi))]"
    "mteb_inits (snd (evaluate env cfg c w)) =
       [mteb_kwargs True t1 tok (chunking_args cfg hi),
        mteb_kwargs False t2 tok (chunking_args cfg hi)]"
    "eval_runs (snd (evaluate env cfg c w)) =
       [(e1, m, run_kwargs cfg ''results-chunked-pooling''),
        (e2, m, run_kwargs cfg ''results-normal-pooling'')]"
    using p c n c' n'
    by (simp_all add: evaluate_snd proj_append prepare_others run_chunked_proj run_normal_proj)
  with p show ?thesis by blast
qed

subsection \<open>The whole of \<^verbatim>\<open>main\<close>\<close>

lemma main_cases:
  "globals env (task_name cfg) = Some c \<Longrightarrow>
   main env cfg =
     (if truncate_max_length cfg \<noteq> None \<and> long_late_chunking_embed_size cfg > 0
      then (fst (evaluate env cfg c 0), Print disabled_notice # snd (evaluate env cfg c 0))
      else if long_late_chunking_embed_size cfg > 0 \<or> truncate_max_length cfg \<noteq> None
      then evaluate env cfg c (long_late_chunking_embed_size cfg)
      else (Inl (AssertionError assert_message), []))"
  by (simp add: main_known check_window_cases bind_prog_def split: prod.splits)












subsection \<open>Keyword arguments\<close>

lemma chunked_kwargs_lookup:
  "map_of (chunked_task_kwargs cfg tok w (chunking_args cfg hi)) ''chunked_pooling_enabled'' = Some (PyBool True)"
  "map_of (chunked_task_kwargs cfg tok w (chunking_args cfg hi)) ''truncate_max_length'' = Some (py_opt_int (truncate_max_length cfg))"
  "map_of (chunked_task_kwargs cfg tok w (chunking_args cfg hi)) ''long_late_chunking_embed_size'' = Some (PyInt w)"
  "map_of (chunked_task_kwargs cfg tok w (chunking_args cfg hi)) ''embedding_model_name'' =
     Some (PyStr (case chunking_model cfg of Some m \<Rightarrow> if m \<noteq> [] then m else model_name cfg | None \<Rightarrow> model_name cfg))"
  by (simp_all add: kw_defs)

lemma normal_kwargs_lookup:
  "map_of (normal_task_kwargs cfg tok (chunking_args cfg hi)) ''chunked_pooling_enabled'' = Some (PyBool False)"
  "map_of (normal_task_kwargs cfg tok (chunking_args cfg hi)) ''truncate_max_length'' = Some (py_opt_int (truncate_max_length cfg))"
  "map_of (normal_task_kwargs cfg tok (chunking_args cfg hi)) ''long_late_chunking_embed_size'' = None"
  "map_of (normal_task_kwargs cfg tok (chunking_args cfg hi)) ''embedding_model_name'' =
     Some (PyStr (case chunking_model cfg of Some m \<Rightarrow> if m \<noteq> [] then m else model_name cfg | None \<Rightarrow> model_name cfg))"
  by (simp_all add: kw_defs)

lemma mteb_kwargs_lookup:
  "map_of (mteb_kwargs b t tok (chunking_args cfg hi)) ''embedding_model_name'' =
     Some (PyStr (case chunking_model cfg of Some m \<Rightarrow> if m \<noteq> [] then m else model_name cfg | None \<Rightarrow> model_name cfg))"
  by (simp_all add: kw_defs)

lemma run_kwargs_lookup:
  "map_of (run_kwargs cfg folder) ''output_folder'' = Some (PyStr folder)"
  "map_of (run_kwargs cfg folder) ''batch_size'' = Some (PyInt 1)"
  "map_of (run_kwargs cfg folder) ''encode_kwargs'' = Some (PyDict [(''batch_size'', PyInt 1)])"
  by (simp_all add: kw_defs BATCH_SIZE_def)

lemma task_kwargs_diff:
  "diff_keys (chunked_task_kwargs cfg tok w (chunking_args cfg hi))
             (normal_task_kwargs cfg tok (chunking_args cfg hi)) =
   [''long_late_chunking_embed_size'', ''long_late_chunking_overlap_size'',
    ''chunked_pooling_enabled'']"
  by (simp add: diff_keys_def kw_defs)

lemma mteb_kwargs_diff:
  "set (diff_keys (mteb_kwargs True t1 tok (chunking_args cfg hi))
                  (mteb_kwargs False t2 tok (chunking_args cfg hi))) =
   (if t1 = t2 then {''chunked_pooling_enabled''} else {''tasks'', ''chunked_pooling_enabled''})"
  by (auto simp: diff_keys_def kw_defs)

lemma run_kwargs_diff:
  "diff_keys (run_kwargs cfg ''results-chunked-pooling'') (run_kwargs cfg ''results-normal-pooling'')
     = [''output_folder'']"
  by (simp add: diff_keys_def kw_defs)

lemmas cfg_defs = default_config_def click_options_def no_flags_def with_default_def truncating_config_def
  no_window_config_def unknown_task_config_def unknown_task_truncating_config_def
  unknown_task_no_window_config_def negative_window_config_def chunking_model_config_def
  empty_chunking_model_config_def
  DEFAULT_CHUNKING_STRATEGY_def DEFAULT_CHUNK_SIZE_def DEFAULT_N_SENTENCES_def
  DEFAULT_LONG_LATE_CHUNKING_OVERLAP_SIZE_def DEFAULT_LONG_LATE_CHUNKING_EMBED_SIZE_def

lemmas run_defs = main_def lookup_task_def check_window_def evaluate_def prepare_def
  run_chunked_def run_normal_def prog_defs unknown_task_message_def

lemmas env_defs = env_ok_def env_no_model_def env_run2_fails_def

lemma check_window_proj:
  "model_loads (snd (check_window cfg)) = []"
  "task_inits (snd (check_window cfg)) = []"
  "mteb_inits (snd (check_window cfg)) = []"
  "eval_runs (snd (check_window cfg)) = []"
  by (simp_all add: check_window_cases)

lemma main_checked:
  fixes env :: "'o env"
  shows "globals env (task_name cfg) = Some c \<Longrightarrow> fst (check_window cfg :: ('o, int) prog) = Inr w \<Longrightarrow>
   main env cfg = (fst (evaluate env cfg c w), snd (check_window cfg) @ snd (evaluate env cfg c w))"
  by (simp add: main_known fst_bind snd_bind prod_eq_iff)

lemma main_rejected:
  fixes env :: "'o env"
  shows "globals env (task_name cfg) = Some c \<Longrightarrow> fst (check_window cfg :: ('o, int) prog) = Inl e \<Longrightarrow>
   main env cfg = (Inl (AssertionError assert_message), [])"
  by (simp add: main_cases check_window_cases split: if_splits)

lemma main_task_inits:
  fixes env :: "'o env"
  assumes "x \<in> set (task_inits (snd (main env cfg)))"
  shows "\<exists>w tok hi.
     fst (check_window cfg :: ('o, int) prog) = Inr w \<and>
     (snd x = chunked_task_kwargs cfg tok w (chunking_args cfg hi) \<or>
      snd x = normal_task_kwargs cfg tok (chunking_args cfg hi))"
proof (cases "globals env (task_name cfg)")
  case None
  with assms show ?thesis by (simp add: main_unknown)
next
  case (Some c)
  show ?thesis
  proof (cases "fst (check_window cfg :: ('o, int) prog)")
    case (Inl e)
    with assms Some show ?thesis by (simp add: main_rejected)
  next
    case (Inr w)
    with assms Some have "x \<in> set (task_inits (snd (evaluate env cfg c w)))"
      by (simp add: main_checked proj_append check_window_proj)
    from evaluate_task_inits [OF this] obtain tok hi where
      "x = (c, chunked_task_kwargs cfg tok w (chunking_args cfg hi)) \<or>
       x = (c, normal_task_kwargs cfg tok (chunking_args cfg hi))"
      by blast
    then have "snd x = chunked_task_kwargs cfg tok w (chunking_args cfg hi) \<or>
       snd x = normal_task_kwargs cfg tok (chunking_args cfg hi)"
      by auto
    with Inr show ?thesis by blast
  qed
qed

lemma main_eval_runs:
  fixes env :: "'o env"
  assumes "r \<in> set (eval_runs (snd (main env cfg)))"
  shows "\<exists>m hi tok. fst (prepare env cfg) = Inr (m, hi, tok) \<and> fst (snd r) = m \<and>
     (snd (snd r) = run_kwargs cfg ''results-chunked-pooling'' \<or>
      snd (snd r) = run_kwargs cfg ''results-normal-pooling'')"
proof (cases "globals env (task_name cfg)")
  case None
  with assms show ?thesis by (simp add: main_unknown)
next
  case (Some c)
  show ?thesis
  proof (cases "fst (check_window cfg :: ('o, int) prog)")
    case (Inl e)
    with assms Some show ?thesis by (simp add: main_rejected)
  next
    case (Inr w)
    with assms Some have "r \<in> set (eval_runs (snd (evaluate env cfg c w)))"
      by (simp add: main_checked proj_append check_window_proj)
    from evaluate_runs [OF this] show ?thesis .
  qed
qed

lemma main_success:
  fixes env :: "'o env"
  assumes "fst (main env cfg) = Inr ()"
  shows "\<exists>c w m hi tok t1 e1 t2 e2.
     globals env (task_name cfg) = Some c \<and>
     fst (check_window cfg :: ('o, int) prog) = Inr w \<and>
     fst (prepare env cfg) = Inr (m, hi, tok) \<and>
     task_inits (snd (main env cfg)) =
       [(c, chunked_task_kwargs cfg tok w (chunking_args cfg hi)),
        (c, normal_task_kwargs cfg tok (chunking_args cfg hi))] \<and>
     mteb_inits (snd (main env cfg)) =
       [mteb_kwargs True t1 tok (chunking_args cfg hi),
        mteb_kwargs False t2 tok (chunking_args cfg hi)] \<and>
     eval_runs (snd (main env cfg)) =
       [(e1, m, run_kwargs cfg ''results-chunked-pooling''),
        (e2, m, run_kwargs cfg ''results-normal-pooling'')]"
proof (cases "globals env (task_name cfg)")
  case None
  with assms show ?thesis by (simp add: main_unknown)
next
  case (Some c)
  show ?thesis
  proof (cases "fst (check_window cfg :: ('o, int) prog)")
    case (Inl e)
    with assms Some show ?thesis by (simp add: main_rejected)
  next
    case (Inr w)
    note shape = main_checked [OF Some Inr]
    from assms have "fst (evaluate env cfg c w) = Inr ()"
      by (simp add: shape)
    from evaluate_success [OF this] obtain m hi tok t1 e1 t2 e2 where
      "fst (prepare env cfg) = Inr (m, hi, tok)"
      "task_inits (snd (evaluate env cfg c w)) =
         [(c, chunked_task_kwargs cfg tok w (chunking_args cfg hi)),
          (c, normal_task_kwargs cfg tok (chunking_args cfg hi))]"
      "mteb_inits (snd (evaluate env cfg c w)) =
         [mteb_kwargs True t1 tok (chunking_args cfg hi),
          mteb_kwargs False t2 tok (chunking_args cfg hi)]"
      "eval_runs (snd (evaluate env cfg c w)) =
         [(e1, m, run_kwargs cfg ''results-chunked-pooling''),
          (e2, m, run_kwargs cfg ''results-normal-pooling'')]"
      by blast
    then have
      "fst (prepare env cfg) = Inr (m, hi, tok) \<and>
       task_inits (snd (main env cfg)) =
         [(c, chunked_task_kwargs cfg tok w (chunking_args cfg hi)),
          (c, normal_task_kwargs cfg tok (chunking_args cfg hi))] \<and>
       mteb_inits (snd (main env cfg)) =
         [mteb_kwargs True t1 tok (chunking_args cfg hi),
          mteb_kwargs False t2 tok (chunking_args cfg hi)] \<and>
       eval_runs (snd (main env cfg)) =
         [(e1, m, run_kwargs cfg ''results-chunked-pooling''),
          (e2, m, run_kwargs cfg ''results-normal-pooling'')]"
      by (simp add: shape proj_append check_window_proj)
    with Some Inr show ?thesis by blast
  qed
qed

lemma check_window_result:
  "fst (check_window cfg :: ('o, int) prog) = Inr w \<Longrightarrow>
   (truncate_max_length cfg \<noteq> None \<longrightarrow> w \<le> 0) \<and>
   (truncate_max_length cfg \<noteq> None \<and> long_late_chunking_embed_size cfg > 0 \<longrightarrow> w = 0)"
  by (auto simp: check_window_cases split: if_splits)

subsection \<open>Runs on concrete libraries\<close>

lemma main_env_ok:
  assumes "task_name cfg = ''SciFactChunked''"
    and "fst (check_window cfg :: (nat, int) prog) = Inr w"
  shows "main env_ok cfg =
     (Inr (),
      snd (check_window cfg) @
      [LoadModel (model_name cfg),
       LoadTokenizer (model_name cfg) [(''trust_remote_code'', PyBool True)],
       ModelEval (PyObj 1),
       TaskInit (PyObj 0) (chunked_task_kwargs cfg (PyObj 2) w (chunking_args cfg (PyBool False))),
       MTEBInit (mteb_kwargs True (PyObj 3) (PyObj 2) (chunking_args cfg (PyBool False))),
       EvalRun (PyObj 4) (PyObj 1) (run_kwargs cfg ''results-chunked-pooling''),
       TaskInit (PyObj 0) (normal_task_kwargs cfg (PyObj 2) (chunking_args cfg (PyBool False))),
       MTEBInit (mteb_kwargs False (PyObj 3) (PyObj 2) (chunking_args cfg (PyBool False))),
       EvalRun (PyObj 4) (PyObj 1) (run_kwargs cfg ''results-normal-pooling'')])"
proof -
  have g: "globals env_ok (task_name cfg) = Some (PyObj 0)"
    using assms(1) by (simp add: env_ok_def)
  have "evaluate env_ok cfg (PyObj 0) w =
     (Inr (),
      [LoadModel (model_name cfg),
       LoadTokenizer (model_name cfg) [(''trust_remote_code'', PyBool True)],
       ModelEval (PyObj 1),
       TaskInit (PyObj 0) (chunked_task_kwargs cfg (PyObj 2) w (chunking_args cfg (PyBool False))),
       MTEBInit (mteb_kwargs True (PyObj 3) (PyObj 2) (chunking_args cfg (PyBool False))),
       EvalRun (PyObj 4) (PyObj 1) (run_kwargs cfg ''results-chunked-pooling''),
       TaskInit (PyObj 0) (normal_task_kwargs cfg (PyObj 2) (chunking_args cfg (PyBool False))),
       MTEBInit (mteb_kwargs False (PyObj 3) (PyObj 2) (chunking_args cfg (PyBool False))),
       EvalRun (PyObj 4) (PyObj 1) (run_kwargs cfg ''results-normal-pooling'')])"
    by (simp add: evaluate_def prepare_def run_chunked_def run_normal_def prog_defs env_ok_def)
  with main_checked [OF g assms(2)] show ?thesis by simp
qed

lemma config_task_names:
  "task_name default_config = ''SciFactChunked''"
  "task_name truncating_config = ''SciFactChunked''"
  "task_name no_window_config = ''SciFactChunked''"
  "task_name negative_window_config = ''SciFactChunked''"
  "task_name chunking_model_config = ''SciFactChunked''"
  "task_name empty_chunking_model_config = ''SciFactChunked''"
  by (simp_all add: cfg_defs)

lemma config_windows:
  "check_window default_config = (Inr 8192, [])"
  "check_window truncating_config = (Inr 0, [Print disabled_notice])"
  "check_window negative_window_config = (Inr (- 1), [])"
  "check_window chunking_model_config = (Inr 8192, [])"
  "check_window empty_chunking_model_config = (Inr 8192, [])"
  by (simp_all add: check_window_cases cfg_defs)

lemma config_truncation:
  "truncate_max_length default_config = None"
  "truncate_max_length truncating_config = Some 512"
  "truncate_max_length negative_window_config = Some 512"
  "long_late_chunking_embed_size default_config = 8192"
  "long_late_chunking_embed_size truncating_config = 8192"
  "long_late_chunking_embed_size negative_window_config = - 1"
  by (simp_all add: cfg_defs)

lemma config_embedding_models:
  "chunking_model default_config = None"
  "model_name default_config = ''jinaai/jina-embeddings-v2-small-en''"
  "chunking_model chunking_model_config = Some ''other/model''"
  "chunking_model empty_chunking_model_config = Some []"
  "model_name empty_chunking_model_config = ''jinaai/jina-embeddings-v2-small-en''"
  by (simp_all add: cfg_defs)


lemma main_env_run2_fails:
  "main env_run2_fails default_config =
     (Inl (OtherError ''RuntimeError'' ''out of memory''),
      [LoadModel ''jinaai/jina-embeddings-v2-small-en'',
       LoadTokenizer ''jinaai/jina-embeddings-v2-small-en'' [(''trust_remote_code'', PyBool True)],
       ModelEval (PyObj 1),
       TaskInit (PyObj 0)
         (chunked_task_kwargs default_config (PyObj 2) 8192 (chunking_args default_config (PyBool False))),
       MTEBInit (mteb_kwargs True (PyObj 3) (PyObj 2) (chunking_args default_config (PyBool False))),
       EvalRun (PyObj 4) (PyObj 1) (run_kwargs default_config ''results-chunked-pooling''),
       TaskInit (PyObj 0)
         (normal_task_kwargs default_config (PyObj 2) (chunking_args default_config (PyBool False))),
       MTEBInit (mteb_kwargs False (PyObj 3) (PyObj 2) (chunking_args default_config (PyBool False))),
       EvalRun (PyObj 4) (PyObj 1) (run_kwargs default_config ''results-normal-pooling'')])"
  by (simp add: run_defs env_defs cfg_defs run_kwargs_lookup)

lemma evaluate_hd: "hd (snd (evaluate env cfg c w)) = LoadModel (model_name cfg)"
  by (simp add: evaluate_snd prepare_def prog_defs split: sum.splits prod.splits)

lemma click_defaults:
  "click_options no_flags =
     \<lparr> model_name = ''jinaai/jina-embeddings-v2-small-en'', strategy = ''fixed'',
       task_name = ''SciFactChunked'', eval_split = ''test'', chunking_model = None,
       truncate_max_length = None, chunk_size = 256, n_sentences = 5,
       long_late_chunking_embed_size = 8192, long_late_chunking_overlap_size = 256 \<rparr>"
  by (simp add: cfg_defs)

lemma config_validity:
  "globals env_ok ''SciFactChunked'' = Some (PyObj 0)"
  by (simp add: env_ok_def)

section \<open>The claims\<close>

subsection \<open>C4: an unknown task name\<close>



subsection \<open>C5: truncation and a positive window never go together\<close>

text \<open>
  C5. Whatever the options are, negative window sizes included, every task construction
  that \<^verbatim>\<open>main\<close> performs (all of them come after the checks) is passed the
  \<^verbatim>\<open>truncate_max_length\<close> of the options, and it is never the case that truncation is
  set and the \<^verbatim>\<open>long_late_chunking_embed_size\<close> passed is positive.
\<close>

theorem never_truncation_with_window:
  "\<forall>x \<in> set (task_inits (snd (main env cfg))).
     map_of (snd x) ''truncate_max_length'' = Some (py_opt_int (truncate_max_length cfg)) \<and>
     \<not> (truncate_max_length cfg \<noteq> None \<and>
        (\<exists>n. 0 < n \<and> map_of (snd x) ''long_late_chunking_embed_size'' = Some (PyInt n)))"
proof
  fix x
  assume "x \<in> set (task_inits (snd (main env cfg)))"
  from main_task_inits [OF this] obtain w tok hi where
    w: "fst (check_window cfg :: ('a, int) prog) = Inr w"
    and x: "snd x = chunked_task_kwargs cfg tok w (chunking_args cfg hi) \<or>
            snd x = normal_task_kwargs cfg tok (chunking_args cfg hi)"
    by blast
  from check_window_result [OF w] have "truncate_max_length cfg \<noteq> None \<longrightarrow> w \<le> 0"
    by blast
  with x show "map_of (snd x) ''truncate_max_length'' = Some (py_opt_int (truncate_max_length cfg)) \<and>
     \<not> (truncate_max_length cfg \<noteq> None \<and>
        (\<exists>n. 0 < n \<and> map_of (snd x) ''long_late_chunking_embed_size'' = Some (PyInt n)))"
    by (auto simp: chunked_kwargs_lookup normal_kwargs_lookup)
qed

text \<open>
  With \<^verbatim>\<open>--truncate-max-length 512\<close> the default window 8192 arrives as 0, and a
  window of -1 arrives as it is; the second construction is passed no window.
\<close>

theorem never_truncation_with_window_witness:
  "map (\<lambda>x. (map_of (snd x) ''truncate_max_length'', map_of (snd x) ''long_late_chunking_embed_size''))
     (task_inits (snd (main env_ok truncating_config))) =
     [(Some (PyInt 512), Some (PyInt 0)), (Some (PyInt 512), None)] \<and>
   map (\<lambda>x. (map_of (snd x) ''truncate_max_length'', map_of (snd x) ''long_late_chunking_embed_size''))
     (task_inits (snd (main env_ok negative_window_config))) =
     [(Some (PyInt 512), Some (PyInt (- 1))), (Some (PyInt 512), None)]"
  using never_truncation_with_window [of env_ok truncating_config]
    never_truncation_with_window [of env_ok negative_window_config]
  by (simp add: main_env_ok config_task_names config_windows chunked_kwargs_lookup
        normal_kwargs_lookup py_opt_int_def config_truncation)

subsection \<open>C6: exceptions of the libraries propagate\<close>



subsection \<open>C9: the batch size\<close>

text \<open>
  C9. For every configuration, every evaluation run is called with \<^verbatim>\<open>batch_size\<close> 1
  and with \<^verbatim>\<open>encode_kwargs\<close> equal to \<^verbatim>\<open>{'batch_size': 1}\<close>: no option reaches
  the batch size.
\<close>

theorem runs_use_batch_size_one:
  "\<forall>r \<in> set (eval_runs (snd (main env cfg))).
     map_of (snd (snd r)) ''batch_size'' = Some (PyInt 1) \<and>
     map_of (snd (snd r)) ''encode_kwargs'' = Some (PyDict [(''batch_size'', PyInt 1)])"
proof
  fix r
  assume "r \<in> set (eval_runs (snd (main env cfg)))"
  from main_eval_runs [OF this]
  have "snd (snd r) = run_kwargs cfg ''results-chunked-pooling'' \<or>
        snd (snd r) = run_kwargs cfg ''results-normal-pooling''"
    by blast
  then show "map_of (snd (snd r)) ''batch_size'' = Some (PyInt 1) \<and>
     map_of (snd (snd r)) ''encode_kwargs'' = Some (PyDict [(''batch_size'', PyInt 1)])"
    by (auto simp: run_kwargs_lookup)
qed

text \<open>The two runs of the default options.\<close>

theorem runs_use_batch_size_one_witness:
  "map (\<lambda>r. (map_of (snd (snd r)) ''output_folder'', map_of (snd (snd r)) ''batch_size'',
              map_of (snd (snd r)) ''encode_kwargs''))
     (eval_runs (snd (main env_ok default_config))) =
   [(Some (PyStr ''results-chunked-pooling''), Some (PyInt 1),
     Some (PyDict [(''batch_size'', PyInt 1)])),
    (Some (PyStr ''results-normal-pooling''), Some (PyInt 1),
     Some (PyDict [(''batch_size'', PyInt 1)]))]"
  using runs_use_batch_size_one [of env_ok default_config]
  by (simp add: main_env_ok config_task_names config_windows run_kwargs_lookup)

subsection \<open>C10: the name of the embedding model\<close>

text \<open>
  C10. The \<^verbatim>\<open>embedding_model_name\<close> passed to the task constructors is the
  \<^verbatim>\<open>--chunking-model\<close> option when that is a non-empty string, and the
  \<^verbatim>\<open>--model-name\<close> option when it is \<^verbatim>\<open>None\<close> or the empty string.
\<close>

theorem embedding_model_name_choice:
  "\<forall>x \<in> set (task_inits (snd (main env cfg))).
     (\<forall>m. chunking_model cfg = Some m \<and> m \<noteq> [] \<longrightarrow>
          map_of (snd x) ''embedding_model_name'' = Some (PyStr m)) \<and>
     (chunking_model cfg = None \<or> chunking_model cfg = Some [] \<longrightarrow>
          map_of (snd x) ''embedding_model_name'' = Some (PyStr (model_name cfg)))"
proof
  fix x
  assume "x \<in> set (task_inits (snd (main env cfg)))"
  from main_task_inits [OF this] obtain w tok hi where
    "snd x = chunked_task_kwargs cfg tok w (chunking_args cfg hi) \<or>
     snd x = normal_task_kwargs cfg tok (chunking_args cfg hi)"
    by blast
  then have "map_of (snd x) ''embedding_model_name'' =
     Some (PyStr (case chunking_model cfg of
                    Some m \<Rightarrow> if m \<noteq> [] then m else model_name cfg
                  | None \<Rightarrow> model_name cfg))"
    by (auto simp: chunked_kwargs_lookup normal_kwargs_lookup)
  then show "(\<forall>m. chunking_model cfg = Some m \<and> m \<noteq> [] \<longrightarrow>
          map_of (snd x) ''embedding_model_name'' = Some (PyStr m)) \<and>
     (chunking_model cfg = None \<or> chunking_model cfg = Some [] \<longrightarrow>
          map_of (snd x) ''embedding_model_name'' = Some (PyStr (model_name cfg)))"
    by auto
qed

text \<open>A chunking model of its own, the empty name, and no chunking model.\<close>

theorem embedding_model_name_choice_witness:
  "map (\<lambda>x. map_of (snd x) ''embedding_model_name'')
     (task_inits (snd (main env_ok chunking_model_config))) =
     [Some (PyStr ''other/model''), Some (PyStr ''other/model'')] \<and>
   map (\<lambda>x. map_of (snd x) ''embedding_model_name'')
     (task_inits (snd (main env_ok empty_chunking_model_config))) =
     [Some (PyStr ''jinaai/jina-embeddings-v2-small-en''),
      Some (PyStr ''jinaai/jina-embeddings-v2-small-en'')] \<and>
   map (\<lambda>x. map_of (snd x) ''embedding_model_name'')
     (task_inits (snd (main env_ok default_config))) =
     [Some (PyStr ''jinaai/jina-embeddings-v2-small-en''),
      Some (PyStr ''jinaai/jina-embeddings-v2-small-en'')]"
  using embedding_model_name_choice [of env_ok chunking_model_config]
    embedding_model_name_choice [of env_ok empty_chunking_model_config]
    embedding_model_name_choice [of env_ok default_config]
  by (simp add: main_env_ok config_task_names config_windows config_embedding_models)

subsection \<open>C1: the two evaluation runs\<close>

text \<open>
  C1, as it is stated, fails: on the default options, with libraries in which every call
  returns, both checks pass and \<^verbatim>\<open>main\<close> ends normally, yet the two task constructions
  differ in more than the \<^verbatim>\<open>chunked_pooling_enabled\<close> flag. The first is passed
  \<^verbatim>\<open>long_late_chunking_embed_size\<close> and \<^verbatim>\<open>long_late_chunking_overlap_size\<close>, the
  second is not (lines 117, 118 against lines 141 to 147).
\<close>

theorem task_constructions_differ_counterexample:
  "globals env_ok (task_name default_config) = Some (PyObj 0) \<and>
   0 < long_late_chunking_embed_size default_config \<and>
   fst (main env_ok default_config) = Inr () \<and>
   task_init_diff (snd (main env_ok default_config)) =
     [''long_late_chunking_embed_size'', ''long_late_chunking_overlap_size'',
      ''chunked_pooling_enabled'']"
  by (simp add: main_env_ok config_task_names config_windows config_validity config_truncation
        task_init_diff_def task_kwargs_diff)

text \<open>
  C1, amended. Whenever \<^verbatim>\<open>main\<close> ends normally (both checks have passed and no call
  into a library has raised), it has performed exactly two evaluation runs, the first with
  the output folder \<^verbatim>\<open>results-chunked-pooling\<close> and the second with
  \<^verbatim>\<open>results-normal-pooling\<close>, and the two run calls differ in the output folder only.
  Both tasks are constructed from the same class. The keyword arguments of the two task
  constructions differ in \<^verbatim>\<open>chunked_pooling_enabled\<close> and in the two long late
  chunking sizes, which only the first is passed; those of the two \<^verbatim>\<open>MTEB\<close>
  constructions differ in \<^verbatim>\<open>chunked_pooling_enabled\<close> and at most in the task list.
\<close>

theorem two_runs_on_success:
  assumes "fst (main env cfg) = Inr ()"
  shows "globals env (task_name cfg) \<noteq> None \<and>
     (0 < long_late_chunking_embed_size cfg \<or> truncate_max_length cfg \<noteq> None) \<and>
     map (\<lambda>r. map_of (snd (snd r)) ''output_folder'') (eval_runs (snd (main env cfg))) =
       [Some (PyStr ''results-chunked-pooling''), Some (PyStr ''results-normal-pooling'')] \<and>
     eval_run_diff (snd (main env cfg)) = [''output_folder''] \<and>
     (\<exists>c. map fst (task_inits (snd (main env cfg))) = [c, c]) \<and>
     task_init_diff (snd (main env cfg)) =
       [''long_late_chunking_embed_size'', ''long_late_chunking_overlap_size'',
        ''chunked_pooling_enabled''] \<and>
     ''chunked_pooling_enabled'' \<in> set (mteb_init_diff (snd (main env cfg))) \<and>
     set (mteb_init_diff (snd (main env cfg))) \<subseteq> {''tasks'', ''chunked_pooling_enabled''}"
proof -
  from main_success [OF assms] obtain c w m hi tok t1 e1 t2 e2 where
    g: "globals env (task_name cfg) = Some c"
    and w: "fst (check_window cfg :: ('a, int) prog) = Inr w"
    and ti: "task_inits (snd (main env cfg)) =
       [(c, chunked_task_kwargs cfg tok w (chunking_args cfg hi)),
        (c, normal_task_kwargs cfg tok (chunking_args cfg hi))]"
    and mi: "mteb_inits (snd (main env cfg)) =
       [mteb_kwargs True t1 tok (chunking_args cfg hi),
        mteb_kwargs False t2 tok (chunking_args cfg hi)]"
    and er: "eval_runs (snd (main env cfg)) =
       [(e1, m, run_kwargs cfg ''results-chunked-pooling''),
        (e2, m, run_kwargs cfg ''results-normal-pooling'')]"
    by blast
  from w have valid: "0 < long_late_chunking_embed_size cfg \<or> truncate_max_length cfg \<noteq> None"
    by (auto simp: check_window_cases split: if_splits)
  have folders: "map (\<lambda>r. map_of (snd (snd r)) ''output_folder'') (eval_runs (snd (main env cfg))) =
       [Some (PyStr ''results-chunked-pooling''), Some (PyStr ''results-normal-pooling'')]"
    by (simp add: er run_kwargs_lookup)
  have runs: "eval_run_diff (snd (main env cfg)) = [''output_folder'']"
    by (simp add: eval_run_diff_def er run_kwargs_diff)
  have cls: "\<exists>c. map fst (task_inits (snd (main env cfg))) = [c, c]"
    by (simp add: ti)
  have tasks: "task_init_diff (snd (main env cfg)) =
       [''long_late_chunking_embed_size'', ''long_late_chunking_overlap_size'',
        ''chunked_pooling_enabled'']"
    by (simp add: task_init_diff_def ti task_kwargs_diff)
  have mteb: "set (mteb_init_diff (snd (main env cfg))) =
     (if t1 = t2 then {''chunked_pooling_enabled''} else {''tasks'', ''chunked_pooling_enabled''})"
    by (simp add: mteb_init_diff_def mi mteb_kwargs_diff)
  from g valid folders runs cls tasks mteb show ?thesis
    by (simp split: if_splits)
qed

text \<open>The default options, every call returning.\<close>

theorem two_runs_on_success_witness:
  "fst (main env_ok default_config) = Inr () \<and>
   map (\<lambda>r. map_of (snd (snd r)) ''output_folder'') (eval_runs (snd (main env_ok default_config))) =
     [Some (PyStr ''results-chunked-pooling''), Some (PyStr ''results-normal-pooling'')] \<and>
   task_init_diff (snd (main env_ok default_config)) =
     [''long_late_chunking_embed_size'', ''long_late_chunking_overlap_size'',
      ''chunked_pooling_enabled'']"
proof -
  have h: "fst (main env_ok default_config) = Inr ()"
    by (simp add: main_env_ok config_task_names config_windows)
  from two_runs_on_success [OF h] h show ?thesis
    by blast
qed

subsection \<open>C2: truncation switches the long late chunking off\<close>

text \<open>
  C2, as it is stated, fails: with an unknown task name the lookup raises first, so that
  with \<^verbatim>\<open>--truncate-max-length 512\<close> and the default window 8192 nothing is printed.
\<close>

theorem truncation_unknown_task_counterexample:
  "truncate_max_length unknown_task_truncating_config = Some 512 \<and>
   0 < long_late_chunking_embed_size unknown_task_truncating_config \<and>
   main env_ok unknown_task_truncating_config =
     (Inl (ValueError ''Unknown task name: NoSuchTask''), []) \<and>
   printed (snd (main env_ok unknown_task_truncating_config)) = []"
  by (simp add: main_unknown env_ok_def cfg_defs unknown_task_message_def)

text \<open>
  C2, amended. For every invocation whose task name is bound in the namespace, with
  \<^verbatim>\<open>truncate_max_length\<close> set and a positive \<^verbatim>\<open>long_late_chunking_embed_size\<close>:
  the notice is printed, once and before anything else, and the window size passed to
  the task constructor of the late chunking run is 0; the task constructor of the normal
  run is passed no window size.
\<close>

theorem truncation_disables_window:
  assumes "globals env (task_name cfg) = Some task_cls"
    and "truncate_max_length cfg = Some t"
    and "0 < long_late_chunking_embed_size cfg"
  shows "hd (snd (main env cfg)) = Print disabled_notice \<and>
     printed (snd (main env cfg)) = [disabled_notice] \<and>
     (\<forall>x \<in> set (task_inits (snd (main env cfg))).
        map_of (snd x) ''long_late_chunking_embed_size'' =
          (if map_of (snd x) ''chunked_pooling_enabled'' = Some (PyBool True)
           then Some (PyInt 0) else None))"
proof -
  from assms have shape:
    "main env cfg = (fst (evaluate env cfg task_cls 0),
                     Print disabled_notice # snd (evaluate env cfg task_cls 0))"
    by (simp add: main_cases)
  have "\<forall>x \<in> set (task_inits (snd (main env cfg))).
        map_of (snd x) ''long_late_chunking_embed_size'' =
          (if map_of (snd x) ''chunked_pooling_enabled'' = Some (PyBool True)
           then Some (PyInt 0) else None)"
  proof
    fix x
    assume "x \<in> set (task_inits (snd (main env cfg)))"
    then have "x \<in> set (task_inits (snd (evaluate env cfg task_cls 0)))"
      by (simp add: shape)
    from evaluate_task_inits [OF this] obtain tok hi where
      "x = (task_cls, chunked_task_kwargs cfg tok 0 (chunking_args cfg hi)) \<or>
       x = (task_cls, normal_task_kwargs cfg tok (chunking_args cfg hi))"
      by blast
    then show "map_of (snd x) ''long_late_chunking_embed_size'' =
          (if map_of (snd x) ''chunked_pooling_enabled'' = Some (PyBool True)
           then Some (PyInt 0) else None)"
      by (auto simp: chunked_kwargs_lookup normal_kwargs_lookup)
  qed
  then show ?thesis
    by (simp add: shape evaluate_printed)
qed

text \<open>The default options with \<^verbatim>\<open>--truncate-max-length 512\<close>.\<close>

theorem truncation_disables_window_witness:
  "globals env_ok (task_name truncating_config) = Some (PyObj 0) \<and>
   truncate_max_length truncating_config = Some 512 \<and>
   0 < long_late_chunking_embed_size truncating_config \<and>
   hd (snd (main env_ok truncating_config)) = Print disabled_notice \<and>
   printed (snd (main env_ok truncating_config)) = [disabled_notice] \<and>
   map (\<lambda>x. (map_of (snd x) ''chunked_pooling_enabled'',
              map_of (snd x) ''long_late_chunking_embed_size''))
     (task_inits (snd (main env_ok truncating_config))) =
     [(Some (PyBool True), Some (PyInt 0)), (Some (PyBool False), None)]"
proof -
  have a: "globals env_ok (task_name truncating_config) = Some (PyObj 0)"
    by (simp add: config_task_names config_validity)
  have b: "truncate_max_length truncating_config = Some 512"
    by (simp add: config_truncation)
  have c: "0 < long_late_chunking_embed_size truncating_config"
    by (simp add: config_truncation)
  from truncation_disables_window [OF a b c] a b c show ?thesis
    by (simp add: main_env_ok config_task_names config_windows chunked_kwargs_lookup
          normal_kwargs_lookup)
qed

subsection \<open>C3: neither truncation nor a window\<close>

text \<open>
  C3, as it is stated, fails: with an unknown task name, no truncation and a window of 0,
  the error is the \<^verbatim>\<open>ValueError\<close> of the task name, not the one of the assertion.
\<close>

theorem no_window_unknown_task_counterexample:
  "truncate_max_length unknown_task_no_window_config = None \<and>
   long_late_chunking_embed_size unknown_task_no_window_config = 0 \<and>
   main env_ok unknown_task_no_window_config =
     (Inl (ValueError ''Unknown task name: NoSuchTask''), [])"
  by (simp add: main_unknown env_ok_def cfg_defs unknown_task_message_def)

text \<open>
  C3, amended. For every invocation whose task name is bound in the namespace, with
  \<^verbatim>\<open>truncate_max_length\<close> unset and \<^verbatim>\<open>long_late_chunking_embed_size\<close> 0,
  \<^verbatim>\<open>main\<close> raises the \<^verbatim>\<open>AssertionError\<close> ``Define either long late chunking or
  truncation to handle documents.'', and nothing has happened before: no model or
  tokenizer load, nothing printed.
\<close>

theorem no_window_rejected:
  assumes "globals env (task_name cfg) = Some task_cls"
    and "truncate_max_length cfg = None"
    and "long_late_chunking_embed_size cfg = 0"
  shows "main env cfg =
    (Inl (AssertionError ''Define either long late chunking or truncation to handle documents.''), [])"
  using assms by (simp add: main_cases assert_message_def)

text \<open>The default options with \<^verbatim>\<open>--long-late-chunking-embed-size 0\<close>.\<close>

theorem no_window_rejected_witness:
  "globals env_ok (task_name no_window_config) = Some (PyObj 0) \<and>
   truncate_max_length no_window_config = None \<and>
   long_late_chunking_embed_size no_window_config = 0 \<and>
   main env_ok no_window_config =
    (Inl (AssertionError ''Define either long late chunking or truncation to handle documents.''), [])"
proof -
  have a: "globals env_ok (task_name no_window_config) = Some (PyObj 0)"
    by (simp add: env_ok_def cfg_defs)
  have b: "truncate_max_length no_window_config = None"
    by (simp add: cfg_defs)
  have c: "long_late_chunking_embed_size no_window_config = 0"
    by (simp add: cfg_defs)
  from no_window_rejected [OF a b c] a b c show ?thesis by simp
qed

subsection \<open>C7: one model for both runs\<close>

text \<open>
  C7, as it is stated, fails: an invocation that a check rejects never loads the model.
\<close>

theorem model_load_unknown_task_counterexample:
  "main env_ok unknown_task_config = (Inl (ValueError ''Unknown task name: NoSuchTask''), []) \<and>
   model_loads (snd (main env_ok unknown_task_config)) = []"
  by (simp add: main_unknown env_ok_def cfg_defs unknown_task_message_def)

text \<open>
  C7, amended. In every invocation that passes both checks the model is loaded exactly
  once. Every evaluation run is passed the model of that load (what \<^verbatim>\<open>model.cuda()\<close>
  returned for it, where there is a GPU), so all runs are passed the same model; and an
  invocation that ends normally has performed two runs.
\<close>

theorem model_loaded_once:
  assumes "globals env (task_name cfg) = Some task_cls"
    and "0 < long_late_chunking_embed_size cfg \<or> truncate_max_length cfg \<noteq> None"
  shows "model_loads (snd (main env cfg)) = [model_name cfg] \<and>
     (\<forall>r \<in> set (eval_runs (snd (main env cfg))).
        \<exists>m0 hi. load_model env (model_name cfg) = Inr (m0, hi) \<and>
          (if cuda_is_available env then model_cuda env m0 = Inr (fst (snd r))
           else fst (snd r) = m0)) \<and>
     (\<forall>r1 \<in> set (eval_runs (snd (main env cfg))).
      \<forall>r2 \<in> set (eval_runs (snd (main env cfg))). fst (snd r1) = fst (snd r2)) \<and>
     (fst (main env cfg) = Inr () \<longrightarrow> length (eval_runs (snd (main env cfg))) = 2)"
proof -
  have loads: "model_loads (snd (main env cfg)) = [model_name cfg]"
    using assms by (auto simp: main_cases evaluate_loads)
  have from_load: "\<exists>m0 hi. load_model env (model_name cfg) = Inr (m0, hi) \<and>
          (if cuda_is_available env then model_cuda env m0 = Inr (fst (snd r))
           else fst (snd r) = m0)"
    if "r \<in> set (eval_runs (snd (main env cfg)))" for r
  proof -
    from main_eval_runs [OF that] obtain m hi tok where
      "fst (prepare env cfg) = Inr (m, hi, tok)" "fst (snd r) = m"
      by blast
    with prepare_model [of env cfg m hi tok] show ?thesis by auto
  qed
  have same: "fst (snd r1) = fst (snd r2)"
    if "r1 \<in> set (eval_runs (snd (main env cfg)))"
      and "r2 \<in> set (eval_runs (snd (main env cfg)))" for r1 r2
  proof -
    from main_eval_runs [OF that(1)] obtain m hi tok where
      "fst (prepare env cfg) = Inr (m, hi, tok)" "fst (snd r1) = m"
      by blast
    moreover from main_eval_runs [OF that(2)] obtain m' hi' tok' where
      "fst (prepare env cfg) = Inr (m', hi', tok')" "fst (snd r2) = m'"
      by blast
    ultimately show ?thesis by simp
  qed
  have two: "length (eval_runs (snd (main env cfg))) = 2" if "fst (main env cfg) = Inr ()"
    using main_success [OF that] by auto
  from loads from_load same two show ?thesis by blast
qed

text \<open>The default options, every call returning.\<close>

theorem model_loaded_once_witness:
  "globals env_ok (task_name default_config) = Some (PyObj 0) \<and>
   0 < long_late_chunking_embed_size default_config \<and>
   model_loads (snd (main env_ok default_config)) = [''jinaai/jina-embeddings-v2-small-en''] \<and>
   map (\<lambda>r. fst (snd r)) (eval_runs (snd (main env_ok default_config))) = [PyObj 1, PyObj 1]"
proof -
  have a: "globals env_ok (task_name default_config) = Some (PyObj 0)"
    by (simp add: config_task_names config_validity)
  have b: "0 < long_late_chunking_embed_size default_config \<or>
           truncate_max_length default_config \<noteq> None"
    by (simp add: config_truncation)
  from model_loaded_once [OF a b] a b show ?thesis
    by (simp add: main_env_ok config_task_names config_windows config_truncation
          config_embedding_models)
qed

subsection \<open>C8: the defaults\<close>

text \<open>
  C8. No flag is required: the options of a command line without flags are the defaults
  of the decorators, with no truncation and a window of 8192. Given that the namespace
  binds the default task name \<^verbatim>\<open>SciFactChunked\<close>, these options pass both checks
  (the lookup returns the class, the window check returns 8192 and prints nothing), and
  \<^verbatim>\<open>main\<close> goes on to load the model and to evaluate with the window 8192.
\<close>

theorem defaults_pass_checks:
  fixes env :: "'o env"
  assumes "globals env ''SciFactChunked'' = Some task_cls"
  shows "click_options no_flags =
     \<lparr> model_name = ''jinaai/jina-embeddings-v2-small-en'', strategy = ''fixed'',
       task_name = ''SciFactChunked'', eval_split = ''test'', chunking_model = None,
       truncate_max_length = None, chunk_size = 256, n_sentences = 5,
       long_late_chunking_embed_size = 8192, long_late_chunking_overlap_size = 256 \<rparr> \<and>
     lookup_task env (click_options no_flags) = (Inr task_cls, []) \<and>
     (check_window (click_options no_flags) :: ('o, int) prog) = (Inr 8192, []) \<and>
     main env (click_options no_flags) = evaluate env (click_options no_flags) task_cls 8192 \<and>
     hd (snd (main env (click_options no_flags))) = LoadModel ''jinaai/jina-embeddings-v2-small-en''"
proof -
  have l: "lookup_task env (click_options no_flags) = (Inr task_cls, [])"
    using assms by (simp add: lookup_task_def return_prog_def click_defaults)
  have w: "(check_window (click_options no_flags) :: ('o, int) prog) = (Inr 8192, [])"
    by (simp add: check_window_cases click_defaults)
  have m: "main env (click_options no_flags) = evaluate env (click_options no_flags) task_cls 8192"
    unfolding main_def l w by (simp add: bind_prog_def)
  have "hd (snd (main env (click_options no_flags))) = LoadModel (model_name (click_options no_flags))"
    unfolding m by (rule evaluate_hd)
  then have "hd (snd (main env (click_options no_flags))) = LoadModel ''jinaai/jina-embeddings-v2-small-en''"
    by (simp add: click_defaults)
  with l w m show ?thesis by (simp add: click_defaults)
qed

text \<open>In the libraries where the namespace binds \<^verbatim>\<open>SciFactChunked\<close>.\<close>

theorem defaults_pass_checks_witness:
  "globals env_ok ''SciFactChunked'' = Some (PyObj 0) \<and>
   lookup_task env_ok (click_options no_flags) = (Inr (PyObj 0), []) \<and>
   (check_window (click_options no_flags) :: (nat, int) prog) = (Inr 8192, []) \<and>
   main env_ok (click_options no_flags) = evaluate env_ok (click_options no_flags) (PyObj 0) 8192 \<and>
   hd (snd (main env_ok (click_options no_flags))) = LoadModel ''jinaai/jina-embeddings-v2-small-en''"
proof -
  have h: "globals env_ok ''SciFactChunked'' = Some (PyObj 0)"
    by (simp add: env_ok_def)
  from defaults_pass_checks [OF h] h show ?thesis
    by blast
qed

end
